theory Spec2Isabelle
  imports Main "HOL-Library.Word"
begin

section \<open>PrivateYieldPredictorFHE: data model\<close>

text \<open>
  The contract \<^verbatim>\<open>contracts/PrivateYieldPredictorFHE.sol\<close> is embedded with explicit
  state passing. Solidity value types are machine words: \<^verbatim>\<open>uint256\<close> and
  \<^verbatim>\<open>bytes32\<close> are 256-bit words, \<^verbatim>\<open>address\<close> is a 160-bit word. The encrypted
  handle types \<^verbatim>\<open>euint32\<close> and \<^verbatim>\<open>euint64\<close> are opaque 32-byte handles. A
  \<^verbatim>\<open>mapping\<close> is a total function whose untouched slots hold the zero value of
  the value type, as in the EVM.
\<close>

type_synonym uint256 = "256 word"
type_synonym address = "160 word"
type_synonym bytes32 = "256 word"
type_synonym bytes = "8 word list"
type_synonym euint32 = "256 word"
type_synonym euint64 = "256 word"

record EncryptedSensorData =
  id_s :: uint256
  uploader :: address
  encryptedSoilMoisture :: euint64
  encryptedSoilPh :: euint64
  encryptedTemperature :: euint64
  encryptedHumidity :: euint64
  timestamp_s :: uint256

record EncryptedModelUpdate =
  id_m :: uint256
  contributor :: address
  encryptedWeightsHash :: euint32
  timestamp_m :: uint256

record DecryptedSuggestion =
  advice :: string
  applied :: bool

datatype event =
  SensorDataSubmitted uint256 address uint256
| ModelUpdateSubmitted uint256 address uint256
| AggregationDecryptionRequested uint256 uint256
| AggregationDecrypted uint256
| SuggestionDecryptionRequested uint256 address
| SuggestionDecrypted address
| DecryptionFulfilled uint256

text \<open>
  The first six events are the contract's own. \<^verbatim>\<open>DecryptionFulfilled\<close> is the
  entry \<^verbatim>\<open>FHE.checkSignatures\<close> logs from the contract when it returns.
\<close>

text \<open>The callback selector handed to \<^verbatim>\<open>FHE.requestDecryption\<close>.\<close>

datatype selector = decryptAggregatedModel_selector | decryptSuggestion_selector

text \<open>
  The storage of the contract, in declaration order, followed by the two append-only
  logs a transaction leaves behind: the emitted events, and the calls made to
  \<^verbatim>\<open>FHE.requestDecryption\<close> (request id returned, ciphertext handles forwarded,
  callback selector).
\<close>

record contract =
  sensorUploadCount :: uint256
  sensorData :: "uint256 \<Rightarrow> EncryptedSensorData"
  modelUpdates :: "uint256 \<Rightarrow> EncryptedModelUpdate"
  suggestions :: "address \<Rightarrow> DecryptedSuggestion"
  modelUpdateCount :: uint256
  requestToEntityId :: "uint256 \<Rightarrow> uint256"
  requestToContext :: "uint256 \<Rightarrow> bytes32"
  events :: "event list"
  decryptionRequests :: "(uint256 \<times> bytes32 list \<times> selector) list"

text \<open>
  The ways a call reverts: a failed \<^verbatim>\<open>require\<close> with its message, the checked
  arithmetic of Solidity 0.8 (\<^verbatim>\<open>+= 1\<close> on a full counter), a revert inside
  \<^verbatim>\<open>FHE.requestDecryption\<close> (the access-control check of the library refusing a
  handle), a revert inside \<^verbatim>\<open>FHE.checkSignatures\<close>, and a revert inside
  \<^verbatim>\<open>abi.decode\<close>.
\<close>

datatype error =
  Require_failed string
| Panic_overflow
| RequestDecryption_reverted
| CheckSignatures_reverted
| AbiDecode_reverted

text \<open>
  The parts the contract imports and does not define are parameters of the model:
  \<^verbatim>\<open>FHE.toBytes32\<close> on a handle; \<^verbatim>\<open>FHE.requestDecryption\<close> as a predicate on
  the handles it is given (\<open>True\<close> when it returns, \<open>False\<close> when it reverts
  because the library refuses one of them); \<^verbatim>\<open>FHE.checkSignatures\<close> as a predicate
  (\<open>True\<close> when it returns, having logged \<^verbatim>\<open>DecryptionFulfilled\<close>, \<open>False\<close>
  when it reverts); and the compiler's \<^verbatim>\<open>abi.decode(cleartexts, (string[]))\<close>
  (\<open>None\<close> when it reverts on bytes that are no encoding of a string array). The
  request id that \<^verbatim>\<open>FHE.requestDecryption\<close> returns, when it returns, is an
  argument \<open>reqId\<close> of the two request functions.
\<close>

record externals =
  toBytes32 :: "euint32 \<Rightarrow> bytes32"
  requestDecryption_returns :: "bytes32 list \<Rightarrow> bool"
  checkSignatures :: "uint256 \<Rightarrow> bytes \<Rightarrow> bytes \<Rightarrow> bool"
  abi_decode :: "bytes \<Rightarrow> string list option"

section \<open>The contract's functions\<close>

text \<open>The state of a freshly deployed contract: every slot is zero, both logs are empty.\<close>

definition deployed :: contract where
  "deployed =
     \<lparr>sensorUploadCount = 0,
      sensorData = (\<lambda>_. \<lparr>id_s = 0, uploader = 0, encryptedSoilMoisture = 0,
          encryptedSoilPh = 0, encryptedTemperature = 0, encryptedHumidity = 0,
          timestamp_s = 0\<rparr>),
      modelUpdates = (\<lambda>_. \<lparr>id_m = 0, contributor = 0, encryptedWeightsHash = 0,
          timestamp_m = 0\<rparr>),
      suggestions = (\<lambda>_. \<lparr>advice = [], applied = False\<rparr>),
      modelUpdateCount = 0,
      requestToEntityId = (\<lambda>_. 0),
      requestToContext = (\<lambda>_. 0),
      events = [],
      decryptionRequests = []\<rparr>"

text \<open>
  \<^verbatim>\<open>submitEncryptedSensorData\<close>; \<open>sender\<close> is \<^verbatim>\<open>msg.sender\<close> and \<open>now\<close> is
  \<^verbatim>\<open>block.timestamp\<close>. The increment is checked: on a full counter the call reverts.
\<close>

definition submitEncryptedSensorData ::
  "contract \<Rightarrow> address \<Rightarrow> uint256 \<Rightarrow> euint64 \<Rightarrow> euint64 \<Rightarrow> euint64 \<Rightarrow> euint64
     \<Rightarrow> error + contract" where
  "submitEncryptedSensorData s sender now soilMoisture soilPh temperature humidity =
     (if 2 ^ 256 \<le> unat (sensorUploadCount s) + 1 then Inl Panic_overflow
      else
        let newId = sensorUploadCount s + 1 in
        Inr (s\<lparr>sensorUploadCount := newId,
               sensorData := (sensorData s)(newId :=
                 \<lparr>id_s = newId, uploader = sender,
                  encryptedSoilMoisture = soilMoisture, encryptedSoilPh = soilPh,
                  encryptedTemperature = temperature, encryptedHumidity = humidity,
                  timestamp_s = now\<rparr>),
               events := events s @ [SensorDataSubmitted newId sender now]\<rparr>))"

text \<open>\<^verbatim>\<open>submitEncryptedModelUpdate\<close>, with its own counter.\<close>

definition submitEncryptedModelUpdate ::
  "contract \<Rightarrow> address \<Rightarrow> uint256 \<Rightarrow> euint32 \<Rightarrow> error + contract" where
  "submitEncryptedModelUpdate s sender now weightsHash =
     (if 2 ^ 256 \<le> unat (modelUpdateCount s) + 1 then Inl Panic_overflow
      else
        let newId = modelUpdateCount s + 1 in
        Inr (s\<lparr>modelUpdateCount := newId,
               modelUpdates := (modelUpdates s)(newId :=
                 \<lparr>id_m = newId, contributor = sender,
                  encryptedWeightsHash = weightsHash, timestamp_m = now\<rparr>),
               events := events s @ [ModelUpdateSubmitted newId sender now]\<rparr>))"

text \<open>
  \<^verbatim>\<open>requestAggregationDecryption\<close>. The loop reads \<^verbatim>\<open>modelUpdates[updateIds[i]]\<close>
  for each index in order, with no check that the slot was ever written, and collects
  the handle found there. The handles go to \<^verbatim>\<open>FHE.requestDecryption\<close>, which
  reverts or returns \<open>reqId\<close>; the binding is written only after it has returned.
\<close>

definition requestAggregationDecryption ::
  "externals \<Rightarrow> contract \<Rightarrow> uint256 list \<Rightarrow> bytes32 \<Rightarrow> uint256 \<Rightarrow> error + contract" where
  "requestAggregationDecryption env s updateIds context reqId =
     (let len = length updateIds in
      if \<not> 0 < len then Inl (Require_failed ''empty'')
      else
        let ciphertexts =
              map (\<lambda>u. toBytes32 env (encryptedWeightsHash (modelUpdates s u))) updateIds
        in
        if \<not> requestDecryption_returns env ciphertexts then Inl RequestDecryption_reverted
        else
          Inr (s\<lparr>requestToEntityId := (requestToEntityId s)(reqId := 0),
                 requestToContext := (requestToContext s)(reqId := context),
                 events := events s @ [AggregationDecryptionRequested reqId 0],
                 decryptionRequests := decryptionRequests s @
                   [(reqId, ciphertexts, decryptAggregatedModel_selector)]\<rparr>))"

text \<open>
  \<^verbatim>\<open>decryptAggregatedModel\<close>: the callback writes no storage. On success the log
  holds the entry of \<^verbatim>\<open>FHE.checkSignatures\<close> and then the contract's own
  \<^verbatim>\<open>AggregationDecrypted(0)\<close>.
\<close>

definition decryptAggregatedModel ::
  "externals \<Rightarrow> contract \<Rightarrow> uint256 \<Rightarrow> bytes \<Rightarrow> bytes \<Rightarrow> error + contract" where
  "decryptAggregatedModel env s requestId cleartexts proofData =
     (let context = requestToContext s requestId in
      if \<not> context \<noteq> 0 then Inl (Require_failed ''invalid'')
      else if \<not> checkSignatures env requestId cleartexts proofData
        then Inl CheckSignatures_reverted
      else
        case abi_decode env cleartexts of
          None \<Rightarrow> Inl AbiDecode_reverted
        | Some results \<Rightarrow>
            Inr (s\<lparr>events := events s @
                   [DecryptionFulfilled requestId, AggregationDecrypted 0]\<rparr>))"

text \<open>
  \<^verbatim>\<open>requestSuggestionDecryption\<close>: once \<^verbatim>\<open>FHE.requestDecryption\<close> has
  returned, the beneficiary is stored widened to 256 bits, and the context slot of the
  request is set to zero.
\<close>

definition requestSuggestionDecryption ::
  "externals \<Rightarrow> contract \<Rightarrow> address \<Rightarrow> euint32 \<Rightarrow> uint256 \<Rightarrow> error + contract" where
  "requestSuggestionDecryption env s beneficiary encryptedSuggestion reqId =
     (let ciphertexts = [toBytes32 env encryptedSuggestion] in
      if \<not> requestDecryption_returns env ciphertexts then Inl RequestDecryption_reverted
      else
        Inr (s\<lparr>requestToEntityId := (requestToEntityId s)(reqId := ucast beneficiary),
               requestToContext := (requestToContext s)(reqId := 0),
               events := events s @ [SuggestionDecryptionRequested reqId beneficiary],
               decryptionRequests := decryptionRequests s @
                 [(reqId, ciphertexts, decryptSuggestion_selector)]\<rparr>))"

text \<open>
  \<^verbatim>\<open>decryptSuggestion\<close>: the advice is \<^verbatim>\<open>results[0]\<close> when the decoded array is
  not empty and the empty string otherwise; the beneficiary is the stored key narrowed
  back to 160 bits.
\<close>

definition decryptSuggestion ::
  "externals \<Rightarrow> contract \<Rightarrow> uint256 \<Rightarrow> bytes \<Rightarrow> bytes \<Rightarrow> error + contract" where
  "decryptSuggestion env s requestId cleartexts proofData =
     (let beneficiaryKey = requestToEntityId s requestId in
      if \<not> beneficiaryKey \<noteq> 0 then Inl (Require_failed ''invalid'')
      else if \<not> checkSignatures env requestId cleartexts proofData
        then Inl CheckSignatures_reverted
      else
        case abi_decode env cleartexts of
          None \<Rightarrow> Inl AbiDecode_reverted
        | Some results \<Rightarrow>
            let adv = (if 0 < length results then results ! 0 else []);
                beneficiary = (ucast beneficiaryKey :: address)
            in
            Inr (s\<lparr>suggestions := (suggestions s)(beneficiary :=
                     \<lparr>advice = adv, applied = False\<rparr>),
                   events := events s @
                     [DecryptionFulfilled requestId, SuggestionDecrypted beneficiary]\<rparr>))"

text \<open>\<^verbatim>\<open>getSuggestion\<close> is a view: it reads one slot and returns both fields.\<close>

definition getSuggestion :: "contract \<Rightarrow> address \<Rightarrow> string \<times> bool" where
  "getSuggestion s beneficiary =
     (let sg = suggestions s beneficiary in (advice sg, applied sg))"

section \<open>Transactions and call sequences\<close>

text \<open>
  An external call with its arguments. The submissions carry \<^verbatim>\<open>msg.sender\<close> and
  \<^verbatim>\<open>block.timestamp\<close> first; the two requests carry last the id the decryption
  oracle hands back.
\<close>

datatype call =
  SubmitEncryptedSensorData address uint256 euint64 euint64 euint64 euint64
| SubmitEncryptedModelUpdate address uint256 euint32
| RequestAggregationDecryption "uint256 list" bytes32 uint256
| DecryptAggregatedModel uint256 bytes bytes
| RequestSuggestionDecryption address euint32 uint256
| DecryptSuggestion uint256 bytes bytes

fun invoke :: "externals \<Rightarrow> contract \<Rightarrow> call \<Rightarrow> error + contract" where
  "invoke env s (SubmitEncryptedSensorData sender now a b c d) =
     submitEncryptedSensorData s sender now a b c d"
| "invoke env s (SubmitEncryptedModelUpdate sender now w) =
     submitEncryptedModelUpdate s sender now w"
| "invoke env s (RequestAggregationDecryption updateIds context reqId) =
     requestAggregationDecryption env s updateIds context reqId"
| "invoke env s (DecryptAggregatedModel requestId cleartexts proofData) =
     decryptAggregatedModel env s requestId cleartexts proofData"
| "invoke env s (RequestSuggestionDecryption beneficiary enc reqId) =
     requestSuggestionDecryption env s beneficiary enc reqId"
| "invoke env s (DecryptSuggestion requestId cleartexts proofData) =
     decryptSuggestion env s requestId cleartexts proofData"

text \<open>A transaction that reverts rolls everything back: the state is the one before.\<close>

definition transact :: "externals \<Rightarrow> contract \<Rightarrow> call \<Rightarrow> contract" where
  "transact env s c = (case invoke env s c of Inl e \<Rightarrow> s | Inr s' \<Rightarrow> s')"

fun run :: "externals \<Rightarrow> contract \<Rightarrow> call list \<Rightarrow> contract" where
  "run env s [] = s"
| "run env s (c # cs) = run env (transact env s c) cs"

definition succeeded :: "error + contract \<Rightarrow> bool" where
  "succeeded r = (case r of Inl e \<Rightarrow> False | Inr s' \<Rightarrow> True)"

text \<open>
  The request ids a call can obtain from the oracle: a request function that reaches
  \<^verbatim>\<open>FHE.requestDecryption\<close> can obtain the one it names, every other call none.
\<close>

fun issues :: "call \<Rightarrow> uint256 list" where
  "issues (RequestAggregationDecryption updateIds context reqId) =
     (if updateIds = [] then [] else [reqId])"
| "issues (RequestSuggestionDecryption beneficiary enc reqId) = [reqId]"
| "issues c = []"

definition issued :: "call list \<Rightarrow> uint256 list" where
  "issued cs = concat (map issues cs)"

text \<open>
  The beneficiaries whose record a sequence of calls has written: one entry for every
  \<^verbatim>\<open>decryptSuggestion\<close> call that succeeded, in order.
\<close>

fun resolved_beneficiaries :: "externals \<Rightarrow> contract \<Rightarrow> call list \<Rightarrow> address list" where
  "resolved_beneficiaries env s [] = []"
| "resolved_beneficiaries env s (DecryptSuggestion requestId cleartexts proofData # cs) =
     (if succeeded (decryptSuggestion env s requestId cleartexts proofData)
      then [ucast (requestToEntityId s requestId)] else []) @
     resolved_beneficiaries env (transact env s (DecryptSuggestion requestId cleartexts proofData)) cs"
| "resolved_beneficiaries env s (c # cs) = resolved_beneficiaries env (transact env s c) cs"

text \<open>
  The ids the two submission functions have assigned, read off the event log in the
  order of the \<^verbatim>\<open>SensorDataSubmitted\<close> and \<^verbatim>\<open>ModelUpdateSubmitted\<close> events.
\<close>

fun assignedSensorIds :: "event list \<Rightarrow> uint256 list" where
  "assignedSensorIds [] = []"
| "assignedSensorIds (SensorDataSubmitted newId sender now # es) = newId # assignedSensorIds es"
| "assignedSensorIds (e # es) = assignedSensorIds es"

fun assignedModelIds :: "event list \<Rightarrow> uint256 list" where
  "assignedModelIds [] = []"
| "assignedModelIds (ModelUpdateSubmitted newId sender now # es) = newId # assignedModelIds es"
| "assignedModelIds (e # es) = assignedModelIds es"

fun isSensorSubmission :: "call \<Rightarrow> bool" where
  "isSensorSubmission (SubmitEncryptedSensorData sender now a b c d) = True"
| "isSensorSubmission c = False"

fun isModelSubmission :: "call \<Rightarrow> bool" where
  "isModelSubmission (SubmitEncryptedModelUpdate sender now w) = True"
| "isModelSubmission c = False"

definition uint256_max :: nat where
  "uint256_max = 2 ^ 256 - 1"

text \<open>
  The invariant of each registry after \<open>n\<close> submission calls: the ids assigned so far
  are \<open>1, 2, \<dots>\<close> up to the counter, and the counter is \<open>n\<close>, capped where the
  checked increment starts to revert.
\<close>

definition sensor_inv :: "contract \<Rightarrow> nat \<Rightarrow> bool" where
  "sensor_inv s n \<longleftrightarrow>
     map unat (assignedSensorIds (events s)) = [1 ..< Suc (unat (sensorUploadCount s))] \<and>
     unat (sensorUploadCount s) = min n uint256_max"

definition model_inv :: "contract \<Rightarrow> nat \<Rightarrow> bool" where
  "model_inv s n \<longleftrightarrow>
     map unat (assignedModelIds (events s)) = [1 ..< Suc (unat (modelUpdateCount s))] \<and>
     unat (modelUpdateCount s) = min n uint256_max"

text \<open>
  An environment for the concrete instances below: handles convert unchanged, the
  library refuses the zero handle and takes every other, the oracle accepts exactly the
  one-byte proof \<open>[42]\<close>, and the decoder rejects the empty byte string, reads a
  leading zero byte as the empty array and anything else as the one-element array
  \<open>[''irrigate'']\<close>.
\<close>

definition test_env :: externals where
  "test_env =
     \<lparr>toBytes32 = (\<lambda>h. h),
      requestDecryption_returns = (\<lambda>handles. 0 \<notin> set handles),
      checkSignatures = (\<lambda>requestId cleartexts proofData. proofData = [42]),
      abi_decode = (\<lambda>cleartexts.
         case cleartexts of [] \<Rightarrow> None
         | n # rest \<Rightarrow> Some (if n = 0 then [] else [''irrigate'']))\<rparr>"

section \<open>Basic facts\<close>

lemmas call_defs = submitEncryptedSensorData_def submitEncryptedModelUpdate_def
  requestAggregationDecryption_def decryptAggregatedModel_def
  requestSuggestionDecryption_def decryptSuggestion_def

lemmas eval_defs = test_env_def deployed_def transact_def succeeded_def call_defs Let_def

lemma run_append: "run env s (xs @ ys) = run env (run env s xs) ys"
  by (induction xs arbitrary: s) simp_all

lemma run_snoc: "run env s (cs @ [c]) = transact env (run env s cs) c"
  by (simp add: run_append)

lemma ucast_address_roundtrip: "(ucast (ucast (b :: address) :: uint256) :: address) = b"
  by (simp add: ucast_up_ucast_id is_up)

lemma unat_checked_inc:
  "\<not> 2 ^ 256 \<le> unat (c :: uint256) + 1 \<Longrightarrow> unat (c + 1) = Suc (unat c)"
  using unat_add_lem [of c 1] by simp

lemma transact_requestToEntityId:
  "rid \<notin> set (issues c) \<Longrightarrow> requestToEntityId (transact env s c) rid = requestToEntityId s rid"
  by (cases c) (auto simp: transact_def call_defs Let_def split: option.splits)

lemma transact_requestToContext:
  "rid \<notin> set (issues c) \<Longrightarrow> requestToContext (transact env s c) rid = requestToContext s rid"
  by (cases c) (auto simp: transact_def call_defs Let_def split: option.splits)

lemma run_bindings:
  "rid \<notin> set (issued cs) \<Longrightarrow>
     requestToEntityId (run env s cs) rid = requestToEntityId s rid \<and>
     requestToContext (run env s cs) rid = requestToContext s rid"
  by (induction cs arbitrary: s)
     (simp_all add: issued_def transact_requestToEntityId transact_requestToContext)

lemma transact_applied:
  "\<not> applied (suggestions s b) \<Longrightarrow> \<not> applied (suggestions (transact env s c) b)"
  by (cases c) (auto simp: transact_def call_defs Let_def split: option.splits)

lemma run_applied:
  "\<not> applied (suggestions s b) \<Longrightarrow> \<not> applied (suggestions (run env s cs) b)"
  by (induction cs arbitrary: s) (simp_all add: transact_applied)

lemma ucast_address_eq_0: "(ucast (b :: address) :: uint256) = 0 \<longleftrightarrow> b = 0"
proof
  assume "(ucast b :: uint256) = 0"
  then have "(ucast (ucast b :: uint256) :: address) = ucast (0 :: uint256)" by simp
  then show "b = 0" by (simp add: ucast_address_roundtrip)
qed simp

lemma deployed_bindings:
  "requestToEntityId deployed rid = 0" "requestToContext deployed rid = 0"
  by (simp_all add: deployed_def)

lemma deployed_applied: "\<not> applied (suggestions deployed b)"
  by (simp add: deployed_def)

lemma run_after_suggestion_request:
  assumes "succeeded (requestSuggestionDecryption env s b enc reqId)"
      and "reqId \<notin> set (issued cs)"
  shows "requestToEntityId (run env s (RequestSuggestionDecryption b enc reqId # cs)) reqId = ucast b"
    and "requestToContext (run env s (RequestSuggestionDecryption b enc reqId # cs)) reqId = 0"
  using assms
  by (simp_all add: run_bindings transact_def requestSuggestionDecryption_def succeeded_def
        Let_def split: if_splits)

lemma run_after_aggregation_request:
  assumes "succeeded (requestAggregationDecryption env s (u # us) context reqId)"
      and "reqId \<notin> set (issued cs)"
  shows "requestToEntityId (run env s (RequestAggregationDecryption (u # us) context reqId # cs)) reqId = 0"
    and "requestToContext (run env s (RequestAggregationDecryption (u # us) context reqId # cs)) reqId = context"
  using assms
  by (simp_all add: run_bindings transact_def requestAggregationDecryption_def succeeded_def
        Let_def split: if_splits)

lemma decryptSuggestion_stores:
  assumes "requestToEntityId t requestId = ucast beneficiary"
      and "decryptSuggestion env t requestId cleartexts proofData = Inr s'"
  shows "\<exists>results. abi_decode env cleartexts = Some results \<and>
           suggestions s' beneficiary =
             \<lparr>advice = (case results of [] \<Rightarrow> [] | a # rest \<Rightarrow> a), applied = False\<rparr>"
  using assms
  by (auto simp: decryptSuggestion_def ucast_address_roundtrip Let_def
           split: option.splits if_splits list.splits)

lemma decryptSuggestion_empty_payload:
  assumes "requestToEntityId t requestId = ucast beneficiary"
      and "beneficiary \<noteq> 0"
      and "checkSignatures env requestId cleartexts proofData"
      and "abi_decode env cleartexts = Some []"
  shows "succeeded (decryptSuggestion env t requestId cleartexts proofData) \<and>
         getSuggestion (transact env t (DecryptSuggestion requestId cleartexts proofData)) beneficiary
           = ([], False)"
  using assms
  by (simp add: decryptSuggestion_def ucast_address_roundtrip ucast_address_eq_0
        succeeded_def transact_def getSuggestion_def Let_def)

lemma transact_suggestions_other:
  "b \<notin> set (resolved_beneficiaries env s [c]) \<Longrightarrow>
     suggestions (transact env s c) b = suggestions s b"
  by (cases c)
     (auto simp: transact_def call_defs succeeded_def Let_def split: option.splits if_splits)

lemma resolved_beneficiaries_Cons:
  "resolved_beneficiaries env s (c # cs) =
     resolved_beneficiaries env s [c] @ resolved_beneficiaries env (transact env s c) cs"
  by (cases c) simp_all

lemma run_suggestions_other:
  "b \<notin> set (resolved_beneficiaries env s cs) \<Longrightarrow>
     suggestions (run env s cs) b = suggestions s b"
proof (induction cs arbitrary: s)
  case Nil
  then show ?case by simp
next
  case (Cons c cs)
  from Cons.prems have "b \<notin> set (resolved_beneficiaries env s [c])"
    and "b \<notin> set (resolved_beneficiaries env (transact env s c) cs)"
    by (simp_all add: resolved_beneficiaries_Cons [of env s c cs])
  then show ?case
    using Cons.IH [of "transact env s c"] by (simp add: transact_suggestions_other)
qed

subsection \<open>The two counters\<close>

lemma assignedSensorIds_append:
  "assignedSensorIds (xs @ ys) = assignedSensorIds xs @ assignedSensorIds ys"
  by (induction xs rule: assignedSensorIds.induct) simp_all

lemma assignedModelIds_append:
  "assignedModelIds (xs @ ys) = assignedModelIds xs @ assignedModelIds ys"
  by (induction xs rule: assignedModelIds.induct) simp_all

lemma unat_uint256_lt: "unat (c :: uint256) < 2 ^ 256"
  using unsigned_less [of c, where ?'a = nat] by simp

lemma unat_uint256_le: "unat (c :: uint256) \<le> uint256_max"
  using unat_uint256_lt [of c] by (simp add: uint256_max_def)

lemma checked_inc_iff: "2 ^ 256 \<le> unat (c :: uint256) + 1 \<longleftrightarrow> unat c = uint256_max"
  using unat_uint256_lt [of c] by (auto simp: uint256_max_def)

lemma unat_inc:
  assumes "unat (c :: uint256) \<noteq> uint256_max"
  shows "unat (c + 1) = Suc (unat c)"
proof (rule unat_checked_inc)
  show "\<not> 2 ^ 256 \<le> unat c + 1"
    unfolding checked_inc_iff by (rule assms)
qed

lemma submitEncryptedSensorData_cases:
  "submitEncryptedSensorData s sender now a b c d =
     (if unat (sensorUploadCount s) = uint256_max then Inl Panic_overflow
      else Inr (s\<lparr>sensorUploadCount := sensorUploadCount s + 1,
             sensorData := (sensorData s)(sensorUploadCount s + 1 :=
               \<lparr>id_s = sensorUploadCount s + 1, uploader = sender,
                encryptedSoilMoisture = a, encryptedSoilPh = b,
                encryptedTemperature = c, encryptedHumidity = d,
                timestamp_s = now\<rparr>),
             events := events s @ [SensorDataSubmitted (sensorUploadCount s + 1) sender now]\<rparr>))"
  unfolding submitEncryptedSensorData_def checked_inc_iff Let_def by (rule refl)

lemma submitEncryptedModelUpdate_cases:
  "submitEncryptedModelUpdate s sender now w =
     (if unat (modelUpdateCount s) = uint256_max then Inl Panic_overflow
      else Inr (s\<lparr>modelUpdateCount := modelUpdateCount s + 1,
             modelUpdates := (modelUpdates s)(modelUpdateCount s + 1 :=
               \<lparr>id_m = modelUpdateCount s + 1, contributor = sender,
                encryptedWeightsHash = w, timestamp_m = now\<rparr>),
             events := events s @ [ModelUpdateSubmitted (modelUpdateCount s + 1) sender now]\<rparr>))"
  unfolding submitEncryptedModelUpdate_def checked_inc_iff Let_def by (rule refl)

lemma sensor_inv_transact:
  assumes "sensor_inv s n"
  shows "sensor_inv (transact env s c) (if isSensorSubmission c then Suc n else n)"
proof (cases c)
  case (SubmitEncryptedSensorData sender now a b c' d)
  show ?thesis
  proof (cases "unat (sensorUploadCount s) = uint256_max")
    case True
    with assms SubmitEncryptedSensorData show ?thesis
      by (auto simp: sensor_inv_def transact_def submitEncryptedSensorData_cases min_def
            split: if_splits)
  next
    case False
    with assms SubmitEncryptedSensorData show ?thesis
      by (simp add: sensor_inv_def transact_def submitEncryptedSensorData_cases
            assignedSensorIds_append unat_inc)
  qed
qed (use assms in \<open>auto simp: sensor_inv_def transact_def call_defs Let_def
        assignedSensorIds_append split: option.splits\<close>)

lemma model_inv_transact:
  assumes "model_inv s n"
  shows "model_inv (transact env s c) (if isModelSubmission c then Suc n else n)"
proof (cases c)
  case (SubmitEncryptedModelUpdate sender now w)
  show ?thesis
  proof (cases "unat (modelUpdateCount s) = uint256_max")
    case True
    with assms SubmitEncryptedModelUpdate show ?thesis
      by (auto simp: model_inv_def transact_def submitEncryptedModelUpdate_cases min_def
            split: if_splits)
  next
    case False
    with assms SubmitEncryptedModelUpdate show ?thesis
      by (simp add: model_inv_def transact_def submitEncryptedModelUpdate_cases
            assignedModelIds_append unat_inc)
  qed
qed (use assms in \<open>auto simp: model_inv_def transact_def call_defs Let_def
        assignedModelIds_append split: option.splits\<close>)

lemma sensor_inv_run:
  "sensor_inv s n \<Longrightarrow> sensor_inv (run env s cs) (n + length (filter isSensorSubmission cs))"
proof (induction cs arbitrary: s n)
  case Nil
  then show ?case by simp
next
  case (Cons c cs)
  from Cons.IH [OF sensor_inv_transact [OF Cons.prems, of env c]]
  show ?case by (cases "isSensorSubmission c") simp_all
qed

lemma model_inv_run:
  "model_inv s n \<Longrightarrow> model_inv (run env s cs) (n + length (filter isModelSubmission cs))"
proof (induction cs arbitrary: s n)
  case Nil
  then show ?case by simp
next
  case (Cons c cs)
  from Cons.IH [OF model_inv_transact [OF Cons.prems, of env c]]
  show ?case by (cases "isModelSubmission c") simp_all
qed

lemma deployed_inv: "sensor_inv deployed 0" "model_inv deployed 0"
  by (simp_all add: sensor_inv_def model_inv_def deployed_def)

lemma strictly_increasing_unat:
  "map unat (xs :: uint256 list) = [1 ..< Suc k] \<Longrightarrow> sorted_wrt (<) xs \<and> distinct xs"
proof -
  assume h: "map unat xs = [1 ..< Suc k]"
  have "sorted_wrt (<) (map unat xs)" unfolding h by (rule sorted_wrt_upt)
  moreover have "(\<lambda>x y :: uint256. unat x < unat y) = (<)"
    by (intro ext) (simp add: word_less_nat_alt)
  ultimately have s: "sorted_wrt (<) xs"
    by (simp add: sorted_wrt_map)
  have "distinct (map unat xs)" unfolding h by (rule distinct_upt)
  then have "distinct xs" by (simp add: distinct_map)
  with s show ?thesis by simp
qed

subsection \<open>Slots that were never written\<close>

lemma transact_modelUpdates_frame:
  "\<not> isModelSubmission c \<Longrightarrow>
     modelUpdates (transact env s c) = modelUpdates s \<and>
     modelUpdateCount (transact env s c) = modelUpdateCount s"
  by (cases c) (auto simp: transact_def call_defs Let_def split: option.splits)

lemma transact_unwritten_slots:
  assumes "\<And>u. u = 0 \<or> unat (modelUpdateCount s) < unat u \<Longrightarrow>
             encryptedWeightsHash (modelUpdates s u) = 0"
      and "u = 0 \<or> unat (modelUpdateCount (transact env s c)) < unat u"
  shows "encryptedWeightsHash (modelUpdates (transact env s c) u) = 0"
proof (cases "isModelSubmission c")
  case False
  then have frame: "modelUpdates (transact env s c) = modelUpdates s"
    "modelUpdateCount (transact env s c) = modelUpdateCount s"
    by (simp_all add: transact_modelUpdates_frame)
  from assms(2) have "u = 0 \<or> unat (modelUpdateCount s) < unat u"
    by (simp only: frame)
  then have "encryptedWeightsHash (modelUpdates s u) = 0"
    by (rule assms(1))
  then show ?thesis by (simp only: frame)
next
  case True
  then obtain sender now w where c: "c = SubmitEncryptedModelUpdate sender now w"
    by (cases c) simp_all
  show ?thesis
  proof (cases "unat (modelUpdateCount s) = uint256_max")
    case True
    then have same: "transact env s c = s"
      by (simp add: c transact_def submitEncryptedModelUpdate_cases)
    from assms(2) have "u = 0 \<or> unat (modelUpdateCount s) < unat u"
      by (simp only: same)
    then have "encryptedWeightsHash (modelUpdates s u) = 0"
      by (rule assms(1))
    then show ?thesis by (simp only: same)
  next
    case False
    from False have inc: "unat (modelUpdateCount s + 1) = Suc (unat (modelUpdateCount s))"
      by (rule unat_inc)
    from assms(2) False inc
    have u: "u = 0 \<or> Suc (unat (modelUpdateCount s)) < unat u"
      by (simp add: c transact_def submitEncryptedModelUpdate_cases)
    from u inc have ne: "u \<noteq> modelUpdateCount s + 1"
      by auto
    from u have "u = 0 \<or> unat (modelUpdateCount s) < unat u"
      by auto
    then have "encryptedWeightsHash (modelUpdates s u) = 0"
      by (rule assms(1))
    with ne False show ?thesis
      by (simp add: c transact_def submitEncryptedModelUpdate_cases)
  qed
qed

lemma run_unwritten_slots:
  assumes "\<And>u. u = 0 \<or> unat (modelUpdateCount s) < unat u \<Longrightarrow>
             encryptedWeightsHash (modelUpdates s u) = 0"
      and "u = 0 \<or> unat (modelUpdateCount (run env s cs)) < unat u"
  shows "encryptedWeightsHash (modelUpdates (run env s cs) u) = 0"
  using assms
proof (induction cs arbitrary: s u)
  case Nil
  then show ?case by simp
next
  case (Cons c cs)
  have "\<And>v. v = 0 \<or> unat (modelUpdateCount (transact env s c)) < unat v \<Longrightarrow>
          encryptedWeightsHash (modelUpdates (transact env s c) v) = 0"
    using Cons.prems(1) by (rule transact_unwritten_slots)
  moreover from Cons.prems(2)
  have "u = 0 \<or> unat (modelUpdateCount (run env (transact env s c) cs)) < unat u"
    by simp
  ultimately have "encryptedWeightsHash (modelUpdates (run env (transact env s c) cs) u) = 0"
    by (rule Cons.IH)
  then show ?case by simp
qed

lemma deployed_unwritten_slot:
  assumes "u = 0 \<or> modelUpdateCount (run env deployed cs) < u"
  shows "encryptedWeightsHash (modelUpdates (run env deployed cs) u) = 0"
proof (rule run_unwritten_slots)
  show "encryptedWeightsHash (modelUpdates deployed v) = 0" for v
    by (simp add: deployed_def)
  from assms show "u = 0 \<or> unat (modelUpdateCount (run env deployed cs)) < unat u"
    by (simp add: word_less_nat_alt)
qed

section \<open>The claims\<close>

subsection \<open>C1: repeated resolution\<close>

text \<open>
  Claim C1 states that after a successful callback for a request id every later
  callback for that id fails. The contract never clears a binding, so this does not
  hold: here a suggestion request, and an aggregation request over a submitted model
  update, are each resolved twice, the second time with a different payload, and all
  four callbacks succeed.
\<close>

theorem resolve_twice_counterexample:
  "succeeded (decryptSuggestion test_env
      (run test_env deployed [RequestSuggestionDecryption 11 5 1]) 1 [1] [42]) \<and>
   succeeded (decryptSuggestion test_env
      (run test_env deployed [RequestSuggestionDecryption 11 5 1, DecryptSuggestion 1 [1] [42]])
      1 [0] [42]) \<and>
   succeeded (decryptAggregatedModel test_env
      (run test_env deployed
         [SubmitEncryptedModelUpdate 11 100 5, RequestAggregationDecryption [1] 9 2])
      2 [1] [42]) \<and>
   succeeded (decryptAggregatedModel test_env
      (run test_env deployed
         [SubmitEncryptedModelUpdate 11 100 5, RequestAggregationDecryption [1] 9 2,
          DecryptAggregatedModel 2 [1] [42]])
      2 [0] [42])"
  by (simp add: eval_defs)

text \<open>
  Claim C1, as the contract has it: a request stays resolvable. After a callback has
  succeeded for a request id, a further callback of the same kind for that id succeeds
  again whenever its proof verifies and its payload decodes.
\<close>

theorem resolve_repeatable:
  assumes "checkSignatures env requestId cleartexts' proofData'"
      and "abi_decode env cleartexts' \<noteq> None"
  shows "(decryptSuggestion env s requestId cleartexts proofData = Inr s' \<longrightarrow>
            succeeded (decryptSuggestion env s' requestId cleartexts' proofData')) \<and>
         (decryptAggregatedModel env s requestId cleartexts proofData = Inr s' \<longrightarrow>
            succeeded (decryptAggregatedModel env s' requestId cleartexts' proofData'))"
  using assms
  by (auto simp: decryptSuggestion_def decryptAggregatedModel_def succeeded_def Let_def
           split: option.splits if_splits)

text \<open>An instance of each kind: the first callback succeeds, and so does the second.\<close>

theorem resolve_repeatable_witness:
  "checkSignatures test_env 1 [0] [42] \<and> abi_decode test_env [0] \<noteq> None \<and>
   decryptSuggestion test_env
      (run test_env deployed [RequestSuggestionDecryption 11 5 1]) 1 [1] [42] =
     Inr (run test_env deployed
            [RequestSuggestionDecryption 11 5 1, DecryptSuggestion 1 [1] [42]]) \<and>
   succeeded (decryptSuggestion test_env
      (run test_env deployed [RequestSuggestionDecryption 11 5 1, DecryptSuggestion 1 [1] [42]])
      1 [0] [42]) \<and>
   decryptAggregatedModel test_env
      (run test_env deployed
         [SubmitEncryptedModelUpdate 11 100 5, RequestAggregationDecryption [1] 9 1])
      1 [1] [42] =
     Inr (run test_env deployed
            [SubmitEncryptedModelUpdate 11 100 5, RequestAggregationDecryption [1] 9 1,
             DecryptAggregatedModel 1 [1] [42]]) \<and>
   succeeded (decryptAggregatedModel test_env
      (run test_env deployed
         [SubmitEncryptedModelUpdate 11 100 5, RequestAggregationDecryption [1] 9 1,
          DecryptAggregatedModel 1 [1] [42]])
      1 [0] [42])"
proof -
  have h1: "checkSignatures test_env 1 [0] [42]"
    by (simp add: test_env_def)
  have h2: "abi_decode test_env [0] \<noteq> None"
    by (simp add: test_env_def)
  have h3: "decryptSuggestion test_env
      (run test_env deployed [RequestSuggestionDecryption 11 5 1]) 1 [1] [42] =
     Inr (run test_env deployed
            [RequestSuggestionDecryption 11 5 1, DecryptSuggestion 1 [1] [42]])"
    by (simp add: eval_defs)
  have h4: "decryptAggregatedModel test_env
      (run test_env deployed
         [SubmitEncryptedModelUpdate 11 100 5, RequestAggregationDecryption [1] 9 1])
      1 [1] [42] =
     Inr (run test_env deployed
            [SubmitEncryptedModelUpdate 11 100 5, RequestAggregationDecryption [1] 9 1,
             DecryptAggregatedModel 1 [1] [42]])"
    by (simp add: eval_defs)
  from resolve_repeatable [OF h1 h2,
      where s = "run test_env deployed [RequestSuggestionDecryption 11 5 1]"
        and cleartexts = "[1]" and proofData = "[42]"
        and s' = "run test_env deployed
            [RequestSuggestionDecryption 11 5 1, DecryptSuggestion 1 [1] [42]]"]
    resolve_repeatable [OF h1 h2,
      where s = "run test_env deployed
            [SubmitEncryptedModelUpdate 11 100 5, RequestAggregationDecryption [1] 9 1]"
        and cleartexts = "[1]" and proofData = "[42]"
        and s' = "run test_env deployed
            [SubmitEncryptedModelUpdate 11 100 5, RequestAggregationDecryption [1] 9 1,
             DecryptAggregatedModel 1 [1] [42]]"]
    h1 h2 h3 h4
  show ?thesis by blast
qed

subsection \<open>C2: the aggregate callback\<close>




subsection \<open>C3: when an aggregation request fails\<close>

text \<open>
  Claim C3 states that \<^verbatim>\<open>requestAggregationDecryption\<close> fails exactly when the list
  is empty or names an id that refers to no submitted model update. The contract checks
  only the first; what happens to a non-empty list is decided by
  \<^verbatim>\<open>FHE.requestDecryption\<close> on the handles read from the slots. Here one model
  update is submitted, with the zero handle; the request over its id 1 is not empty and
  names a submitted record only, and it fails, by the library's revert.
\<close>

theorem submitted_record_refused_counterexample:
  "modelUpdateCount (run test_env deployed [SubmitEncryptedModelUpdate 11 100 0]) = 1 \<and>
   id_m (modelUpdates (run test_env deployed [SubmitEncryptedModelUpdate 11 100 0]) 1) = 1 \<and>
   contributor (modelUpdates (run test_env deployed [SubmitEncryptedModelUpdate 11 100 0]) 1)
     = 11 \<and>
   requestAggregationDecryption test_env
     (run test_env deployed [SubmitEncryptedModelUpdate 11 100 0]) [1] 9 1 =
     Inl RequestDecryption_reverted"
  by (simp add: eval_defs)

text \<open>
  Claim C3, as the contract has it. The call succeeds exactly when \<^verbatim>\<open>updateIds\<close>
  is not empty and \<^verbatim>\<open>FHE.requestDecryption\<close> returns on the handles read from the
  slots; the contract has no existence check of its own. On the empty list it reverts
  with \<^verbatim>\<open>"empty"\<close>. Whenever it fails, the state, the bindings included, is as
  before; when it succeeds, the binding (entity 0, the given context) is stored under
  the request id. After any sequence of calls on a fresh contract, an id that was never
  assigned (0, or one above the counter) contributes the zero handle of its unwritten
  slot, so a request naming such an id fails if the library refuses every batch that
  holds the zero handle.
\<close>

theorem aggregation_request_outcome:
  "succeeded (requestAggregationDecryption env s updateIds ctx reqId) =
     (updateIds \<noteq> [] \<and>
      requestDecryption_returns env
        (map (\<lambda>i. toBytes32 env (encryptedWeightsHash (modelUpdates s i))) updateIds)) \<and>
   requestAggregationDecryption env s [] ctx reqId = Inl (Require_failed ''empty'') \<and>
   (\<not> succeeded (requestAggregationDecryption env s updateIds ctx reqId) \<longrightarrow>
      transact env s (RequestAggregationDecryption updateIds ctx reqId) = s) \<and>
   (succeeded (requestAggregationDecryption env s updateIds ctx reqId) \<longrightarrow>
      requestToEntityId
        (transact env s (RequestAggregationDecryption updateIds ctx reqId)) reqId = 0 \<and>
      requestToContext
        (transact env s (RequestAggregationDecryption updateIds ctx reqId)) reqId
        = ctx) \<and>
   ((u = 0 \<or> modelUpdateCount (run env deployed cs) < u) \<and> u \<in> set updateIds \<and>
    (\<forall>handles. toBytes32 env 0 \<in> set handles \<longrightarrow> \<not> requestDecryption_returns env handles)
    \<longrightarrow>
      requestAggregationDecryption env (run env deployed cs) updateIds ctx reqId =
        Inl RequestDecryption_reverted)"
proof -
  have a: "succeeded (requestAggregationDecryption env s updateIds ctx reqId) =
     (updateIds \<noteq> [] \<and>
      requestDecryption_returns env
        (map (\<lambda>i. toBytes32 env (encryptedWeightsHash (modelUpdates s i))) updateIds))"
    by (simp add: requestAggregationDecryption_def succeeded_def Let_def)
  have b: "requestAggregationDecryption env s [] ctx reqId = Inl (Require_failed ''empty'')"
    by (simp add: requestAggregationDecryption_def)
  have c: "\<not> succeeded (requestAggregationDecryption env s updateIds ctx reqId) \<longrightarrow>
      transact env s (RequestAggregationDecryption updateIds ctx reqId) = s"
    by (simp add: transact_def succeeded_def split: sum.splits)
  have d: "succeeded (requestAggregationDecryption env s updateIds ctx reqId) \<longrightarrow>
      requestToEntityId
        (transact env s (RequestAggregationDecryption updateIds ctx reqId)) reqId = 0 \<and>
      requestToContext
        (transact env s (RequestAggregationDecryption updateIds ctx reqId)) reqId
        = ctx"
    by (simp add: transact_def requestAggregationDecryption_def succeeded_def Let_def)
  have e: "requestAggregationDecryption env (run env deployed cs) updateIds ctx reqId =
        Inl RequestDecryption_reverted"
    if unknown: "u = 0 \<or> modelUpdateCount (run env deployed cs) < u"
      and mem: "u \<in> set updateIds"
      and refuses: "\<forall>handles. toBytes32 env 0 \<in> set handles \<longrightarrow>
                      \<not> requestDecryption_returns env handles"
  proof -
    from unknown have "encryptedWeightsHash (modelUpdates (run env deployed cs) u) = 0"
      by (rule deployed_unwritten_slot)
    with mem have "toBytes32 env 0 \<in> set (map (\<lambda>i. toBytes32 env
        (encryptedWeightsHash (modelUpdates (run env deployed cs) i))) updateIds)"
      by force
    with refuses have "\<not> requestDecryption_returns env (map (\<lambda>i. toBytes32 env
        (encryptedWeightsHash (modelUpdates (run env deployed cs) i))) updateIds)"
      by blast
    moreover from mem have "updateIds \<noteq> []" by auto
    ultimately show ?thesis
      by (simp add: requestAggregationDecryption_def Let_def)
  qed
  from a b c d e show ?thesis by blast
qed

text \<open>
  Three instances after one submission with the handle 5, in an environment whose
  library refuses the zero handle: the request over the submitted id 1 succeeds and
  stores its binding; the request over the unassigned id 7 fails in the library and
  changes nothing; so does the request over the ids 1 and 7.
\<close>

theorem aggregation_request_outcome_witness:
  "succeeded (requestAggregationDecryption test_env
     (run test_env deployed [SubmitEncryptedModelUpdate 11 100 5]) [1] 9 1) \<and>
   requestToContext (transact test_env
     (run test_env deployed [SubmitEncryptedModelUpdate 11 100 5])
     (RequestAggregationDecryption [1] 9 1)) 1 = 9 \<and>
   \<not> succeeded (requestAggregationDecryption test_env
     (run test_env deployed [SubmitEncryptedModelUpdate 11 100 5]) [7] 9 1) \<and>
   transact test_env (run test_env deployed [SubmitEncryptedModelUpdate 11 100 5])
     (RequestAggregationDecryption [7] 9 1) =
     run test_env deployed [SubmitEncryptedModelUpdate 11 100 5] \<and>
   ((7 :: uint256) = 0 \<or>
      modelUpdateCount (run test_env deployed [SubmitEncryptedModelUpdate 11 100 5]) < 7) \<and>
   (7 :: uint256) \<in> set [1, 7] \<and>
   \<not> requestDecryption_returns test_env [5, toBytes32 test_env 0] \<and>
   requestAggregationDecryption test_env
     (run test_env deployed [SubmitEncryptedModelUpdate 11 100 5]) [1, 7] 9 1 =
     Inl RequestDecryption_reverted"
proof -
  have h1: "succeeded (requestAggregationDecryption test_env
     (run test_env deployed [SubmitEncryptedModelUpdate 11 100 5]) [1] 9 1)"
    by (simp add: eval_defs)
  have h2: "\<not> succeeded (requestAggregationDecryption test_env
     (run test_env deployed [SubmitEncryptedModelUpdate 11 100 5]) [7] 9 1)"
    by (simp add: eval_defs)
  have h3: "(7 :: uint256) = 0 \<or>
      modelUpdateCount (run test_env deployed [SubmitEncryptedModelUpdate 11 100 5]) < 7"
    by (simp add: eval_defs)
  have h4: "(7 :: uint256) \<in> set [1, 7]"
    by simp
  have h5: "\<forall>handles. toBytes32 test_env 0 \<in> set handles \<longrightarrow>
      \<not> requestDecryption_returns test_env handles"
    by (simp add: test_env_def)
  from aggregation_request_outcome [where env = test_env
      and s = "run test_env deployed [SubmitEncryptedModelUpdate 11 100 5]"
      and updateIds = "[1]" and ctx = 9 and reqId = 1] h1
  have a: "requestToContext (transact test_env
     (run test_env deployed [SubmitEncryptedModelUpdate 11 100 5])
     (RequestAggregationDecryption [1] 9 1)) 1 = 9"
    by blast
  from aggregation_request_outcome [where env = test_env
      and s = "run test_env deployed [SubmitEncryptedModelUpdate 11 100 5]"
      and updateIds = "[7]" and ctx = 9 and reqId = 1] h2
  have b: "transact test_env (run test_env deployed [SubmitEncryptedModelUpdate 11 100 5])
     (RequestAggregationDecryption [7] 9 1) =
     run test_env deployed [SubmitEncryptedModelUpdate 11 100 5]"
    by blast
  from aggregation_request_outcome [where env = test_env
      and cs = "[SubmitEncryptedModelUpdate 11 100 5]" and u = 7
      and updateIds = "[1, 7]" and ctx = 9 and reqId = 1] h3 h4 h5
  have c: "requestAggregationDecryption test_env
     (run test_env deployed [SubmitEncryptedModelUpdate 11 100 5]) [1, 7] 9 1 =
     Inl RequestDecryption_reverted"
    by blast
  from h5 have h6: "\<not> requestDecryption_returns test_env [5, toBytes32 test_env 0]"
    by simp
  from h1 h2 h3 h4 h6 a b c show ?thesis by blast
qed

subsection \<open>C4: unknown request ids\<close>

text \<open>
  Claim C4: after any sequence of calls on a fresh contract, both callbacks revert for
  every request id that no request in the sequence obtained, whatever the payload and
  the proof, and the state (the suggestions with it) is unchanged.
\<close>

theorem unknown_request_rejected:
  assumes "requestId \<notin> set (issued cs)"
  shows "decryptAggregatedModel env (run env deployed cs) requestId cleartexts proofData =
           Inl (Require_failed ''invalid'') \<and>
         decryptSuggestion env (run env deployed cs) requestId cleartexts proofData =
           Inl (Require_failed ''invalid'') \<and>
         transact env (run env deployed cs) (DecryptAggregatedModel requestId cleartexts proofData) =
           run env deployed cs \<and>
         transact env (run env deployed cs) (DecryptSuggestion requestId cleartexts proofData) =
           run env deployed cs"
proof -
  from assms have "requestToEntityId (run env deployed cs) requestId = 0"
    and "requestToContext (run env deployed cs) requestId = 0"
    by (simp_all add: run_bindings deployed_bindings)
  then show ?thesis
    by (simp add: decryptAggregatedModel_def decryptSuggestion_def transact_def Let_def)
qed

text \<open>An instance: ids 1 and 4 were issued, id 2 was not, and a valid proof does not help.\<close>

theorem unknown_request_rejected_witness:
  "(2 :: uint256) \<notin> set (issued
      [SubmitEncryptedModelUpdate 12 100 7, RequestSuggestionDecryption 11 5 1,
       RequestAggregationDecryption [1] 9 4]) \<and>
   decryptAggregatedModel test_env
     (run test_env deployed
        [SubmitEncryptedModelUpdate 12 100 7, RequestSuggestionDecryption 11 5 1,
       RequestAggregationDecryption [1] 9 4])
     2 [1] [42] = Inl (Require_failed ''invalid'') \<and>
   decryptSuggestion test_env
     (run test_env deployed
        [SubmitEncryptedModelUpdate 12 100 7, RequestSuggestionDecryption 11 5 1,
       RequestAggregationDecryption [1] 9 4])
     2 [1] [42] = Inl (Require_failed ''invalid'')"
proof -
  have h: "(2 :: uint256) \<notin> set (issued
      [SubmitEncryptedModelUpdate 12 100 7, RequestSuggestionDecryption 11 5 1,
       RequestAggregationDecryption [1] 9 4])"
    by (simp add: issued_def)
  from unknown_request_rejected [OF h, of test_env "[1]" "[42]"] h show ?thesis by simp
qed

subsection \<open>C5: a proof that fails verification\<close>

text \<open>
  Claim C5 states that for every pending request a callback with a valid proof
  succeeds after one with an invalid proof. A request issued for the beneficiary
  \<^verbatim>\<open>address(0)\<close> is an exception: its stored key is the zero the callback
  rejects. Here such a request is issued under id 1, a callback with a bad proof
  fails, and the next callback, with a proof the oracle accepts and a payload that
  decodes, reverts with \<^verbatim>\<open>"invalid"\<close>.
\<close>

theorem sentinel_request_counterexample:
  "issued [RequestSuggestionDecryption 0 5 1] = [1] \<and>
   \<not> checkSignatures test_env 1 [1] [7] \<and>
   checkSignatures test_env 1 [1] [42] \<and>
   abi_decode test_env [1] = Some [''irrigate''] \<and>
   decryptSuggestion test_env
     (run test_env deployed [RequestSuggestionDecryption 0 5 1, DecryptSuggestion 1 [1] [7]])
     1 [1] [42] = Inl (Require_failed ''invalid'')"
  by (simp add: eval_defs issued_def)

text \<open>
  Claim C5, as the contract has it: a callback whose proof fails verification leaves
  the whole state as it was, so no binding is consumed and no suggestion is written.
  If the binding the callback checks is not zero (the entity key for
  \<^verbatim>\<open>decryptSuggestion\<close>, the context for \<^verbatim>\<open>decryptAggregatedModel\<close>), the
  failure is the revert of \<^verbatim>\<open>FHE.checkSignatures\<close>, and a following callback for
  the same id with a proof that verifies and a payload that decodes succeeds.
\<close>

theorem failed_proof_changes_nothing:
  assumes "\<not> checkSignatures env requestId cleartexts proofData"
  shows "transact env s (DecryptSuggestion requestId cleartexts proofData) = s \<and>
         transact env s (DecryptAggregatedModel requestId cleartexts proofData) = s \<and>
         (requestToEntityId s requestId \<noteq> 0 \<and>
          checkSignatures env requestId cleartexts' proofData' \<and>
          abi_decode env cleartexts' \<noteq> None \<longrightarrow>
            decryptSuggestion env s requestId cleartexts proofData = Inl CheckSignatures_reverted \<and>
            succeeded (decryptSuggestion env
              (transact env s (DecryptSuggestion requestId cleartexts proofData))
              requestId cleartexts' proofData')) \<and>
         (requestToContext s requestId \<noteq> 0 \<and>
          checkSignatures env requestId cleartexts' proofData' \<and>
          abi_decode env cleartexts' \<noteq> None \<longrightarrow>
            decryptAggregatedModel env s requestId cleartexts proofData = Inl CheckSignatures_reverted \<and>
            succeeded (decryptAggregatedModel env
              (transact env s (DecryptAggregatedModel requestId cleartexts proofData))
              requestId cleartexts' proofData'))"
proof -
  have a: "transact env s (DecryptSuggestion requestId cleartexts proofData) = s"
    using assms by (simp add: transact_def decryptSuggestion_def Let_def)
  have b: "transact env s (DecryptAggregatedModel requestId cleartexts proofData) = s"
    using assms by (simp add: transact_def decryptAggregatedModel_def Let_def)
  show ?thesis
    unfolding a b using assms
    by (auto simp: decryptSuggestion_def decryptAggregatedModel_def succeeded_def Let_def
          split: option.splits)
qed

text \<open>
  An instance of each kind: a bad proof changes nothing, and the good proof that
  follows is accepted.
\<close>

theorem failed_proof_changes_nothing_witness:
  "\<not> checkSignatures test_env 1 [1] [7] \<and>
   checkSignatures test_env 1 [1] [42] \<and> abi_decode test_env [1] \<noteq> None \<and>
   requestToEntityId (run test_env deployed [RequestSuggestionDecryption 11 5 1]) 1 \<noteq> 0 \<and>
   transact test_env (run test_env deployed [RequestSuggestionDecryption 11 5 1])
      (DecryptSuggestion 1 [1] [7]) = run test_env deployed [RequestSuggestionDecryption 11 5 1] \<and>
   succeeded (decryptSuggestion test_env
      (transact test_env (run test_env deployed [RequestSuggestionDecryption 11 5 1])
         (DecryptSuggestion 1 [1] [7])) 1 [1] [42]) \<and>
   requestToContext (run test_env deployed
        [SubmitEncryptedModelUpdate 12 100 7, RequestAggregationDecryption [1] 9 1]) 1 \<noteq> 0 \<and>
   transact test_env (run test_env deployed
        [SubmitEncryptedModelUpdate 12 100 7, RequestAggregationDecryption [1] 9 1])
      (DecryptAggregatedModel 1 [1] [7]) =
        run test_env deployed
        [SubmitEncryptedModelUpdate 12 100 7, RequestAggregationDecryption [1] 9 1] \<and>
   succeeded (decryptAggregatedModel test_env
      (transact test_env (run test_env deployed
        [SubmitEncryptedModelUpdate 12 100 7, RequestAggregationDecryption [1] 9 1])
         (DecryptAggregatedModel 1 [1] [7])) 1 [1] [42])"
proof -
  have h: "\<not> checkSignatures test_env 1 [1] [7]"
    by (simp add: test_env_def)
  have k: "checkSignatures test_env 1 [1] [42] \<and> abi_decode test_env [1] \<noteq> None"
    by (simp add: test_env_def)
  have k1: "requestToEntityId (run test_env deployed [RequestSuggestionDecryption 11 5 1]) 1 \<noteq> 0"
    by (simp add: eval_defs)
  have k2: "requestToContext (run test_env deployed
        [SubmitEncryptedModelUpdate 12 100 7, RequestAggregationDecryption [1] 9 1]) 1 \<noteq> 0"
    by (simp add: eval_defs)
  from failed_proof_changes_nothing [OF h,
      where s = "run test_env deployed [RequestSuggestionDecryption 11 5 1]"
        and cleartexts' = "[1]" and proofData' = "[42]"]
    failed_proof_changes_nothing [OF h,
      where s = "run test_env deployed
        [SubmitEncryptedModelUpdate 12 100 7, RequestAggregationDecryption [1] 9 1]"
        and cleartexts' = "[1]" and proofData' = "[42]"]
    h k k1 k2
  show ?thesis by blast
qed

subsection \<open>C6: the stored suggestion\<close>

text \<open>
  Claim C6: take a suggestion request for a beneficiary that went through (the
  library returned a request id), followed by any calls that do not obtain the same
  request id again. If \<^verbatim>\<open>decryptSuggestion\<close> then succeeds
  for that id, the payload has decoded and the record of that beneficiary is the first
  decoded string, or the empty string when the decoded array is empty, with
  \<^verbatim>\<open>applied\<close> false, whatever the record held before. And when the beneficiary is
  not \<^verbatim>\<open>address(0)\<close>, the proof verifies and the payload decodes to the empty array,
  the callback does succeed, and \<^verbatim>\<open>getSuggestion\<close> then returns the empty advice.
\<close>

theorem suggestion_record_stored:
  assumes "succeeded (requestSuggestionDecryption env s beneficiary enc reqId)"
      and "reqId \<notin> set (issued cs)"
  shows "(decryptSuggestion env (run env s (RequestSuggestionDecryption beneficiary enc reqId # cs))
            reqId cleartexts proofData = Inr s' \<longrightarrow>
          (\<exists>results. abi_decode env cleartexts = Some results \<and>
             suggestions s' beneficiary =
               \<lparr>advice = (case results of [] \<Rightarrow> [] | a # rest \<Rightarrow> a), applied = False\<rparr>)) \<and>
         (beneficiary \<noteq> 0 \<and> checkSignatures env reqId cleartexts proofData \<and>
          abi_decode env cleartexts = Some [] \<longrightarrow>
          succeeded (decryptSuggestion env
            (run env s (RequestSuggestionDecryption beneficiary enc reqId # cs)) reqId cleartexts proofData) \<and>
          getSuggestion (transact env
            (run env s (RequestSuggestionDecryption beneficiary enc reqId # cs))
            (DecryptSuggestion reqId cleartexts proofData)) beneficiary = ([], False))"
proof -
  define t where "t = run env s (RequestSuggestionDecryption beneficiary enc reqId # cs)"
  have key: "requestToEntityId t reqId = ucast beneficiary"
    unfolding t_def using assms by (rule run_after_suggestion_request)
  have "decryptSuggestion env t reqId cleartexts proofData = Inr s' \<longrightarrow>
          (\<exists>results. abi_decode env cleartexts = Some results \<and>
             suggestions s' beneficiary =
               \<lparr>advice = (case results of [] \<Rightarrow> [] | a # rest \<Rightarrow> a), applied = False\<rparr>)"
    using decryptSuggestion_stores [OF key] by blast
  moreover have "beneficiary \<noteq> 0 \<and> checkSignatures env reqId cleartexts proofData \<and>
          abi_decode env cleartexts = Some [] \<longrightarrow>
          succeeded (decryptSuggestion env t reqId cleartexts proofData) \<and>
          getSuggestion (transact env t (DecryptSuggestion reqId cleartexts proofData)) beneficiary
            = ([], False)"
    using decryptSuggestion_empty_payload [OF key] by blast
  ultimately show ?thesis unfolding t_def by blast
qed

text \<open>
  Two instances for the beneficiary 11, with a model update and an aggregation request
  over it in between: the
  payload \<open>[1]\<close> stores the advice \<open>''irrigate''\<close>, and the payload \<open>[0]\<close>, which
  decodes to the empty array, replaces it by the empty advice.
\<close>

theorem suggestion_record_stored_witness:
  "succeeded (requestSuggestionDecryption test_env deployed 11 5 1) \<and>
   (1 :: uint256) \<notin> set (issued [SubmitEncryptedModelUpdate 12 100 7, RequestAggregationDecryption [1] 9 2]) \<and>
   (1 :: uint256) \<notin> set (issued
      [SubmitEncryptedModelUpdate 12 100 7, RequestAggregationDecryption [1] 9 2,
       DecryptSuggestion 1 [1] [42]]) \<and>
   decryptSuggestion test_env
     (run test_env deployed
        [RequestSuggestionDecryption 11 5 1, SubmitEncryptedModelUpdate 12 100 7,
         RequestAggregationDecryption [1] 9 2])
     1 [1] [42] =
     Inr (run test_env deployed
        [RequestSuggestionDecryption 11 5 1, SubmitEncryptedModelUpdate 12 100 7,
         RequestAggregationDecryption [1] 9 2,
         DecryptSuggestion 1 [1] [42]]) \<and>
   suggestions (run test_env deployed
        [RequestSuggestionDecryption 11 5 1, SubmitEncryptedModelUpdate 12 100 7,
         RequestAggregationDecryption [1] 9 2,
         DecryptSuggestion 1 [1] [42]]) 11 = \<lparr>advice = ''irrigate'', applied = False\<rparr> \<and>
   (11 :: address) \<noteq> 0 \<and> checkSignatures test_env 1 [0] [42] \<and>
   abi_decode test_env [0] = Some [] \<and>
   succeeded (decryptSuggestion test_env
     (run test_env deployed
        [RequestSuggestionDecryption 11 5 1, SubmitEncryptedModelUpdate 12 100 7,
         RequestAggregationDecryption [1] 9 2,
         DecryptSuggestion 1 [1] [42]]) 1 [0] [42]) \<and>
   getSuggestion (transact test_env
     (run test_env deployed
        [RequestSuggestionDecryption 11 5 1, SubmitEncryptedModelUpdate 12 100 7,
         RequestAggregationDecryption [1] 9 2,
         DecryptSuggestion 1 [1] [42]])
     (DecryptSuggestion 1 [0] [42])) 11 = ([], False)"
proof -
  have h0: "succeeded (requestSuggestionDecryption test_env deployed 11 5 1)"
    by (simp add: eval_defs)
  have h1: "(1 :: uint256) \<notin> set (issued [SubmitEncryptedModelUpdate 12 100 7, RequestAggregationDecryption [1] 9 2])"
    by (simp add: issued_def)
  have h2: "(1 :: uint256) \<notin> set (issued
      [SubmitEncryptedModelUpdate 12 100 7, RequestAggregationDecryption [1] 9 2,
       DecryptSuggestion 1 [1] [42]])"
    by (simp add: issued_def)
  have h3: "decryptSuggestion test_env
     (run test_env deployed
        [RequestSuggestionDecryption 11 5 1, SubmitEncryptedModelUpdate 12 100 7,
         RequestAggregationDecryption [1] 9 2])
     1 [1] [42] =
     Inr (run test_env deployed
        [RequestSuggestionDecryption 11 5 1, SubmitEncryptedModelUpdate 12 100 7,
         RequestAggregationDecryption [1] 9 2,
         DecryptSuggestion 1 [1] [42]])"
    by (simp add: eval_defs)
  have h4: "abi_decode test_env [1] = Some [''irrigate'']"
    by (simp add: test_env_def)
  have h5: "(11 :: address) \<noteq> 0 \<and> checkSignatures test_env 1 [0] [42] \<and>
     abi_decode test_env [0] = Some []"
    by (simp add: test_env_def)
  from suggestion_record_stored [OF h0 h1,
      where cleartexts = "[1]" and proofData = "[42]"
        and s' = "run test_env deployed
          [RequestSuggestionDecryption 11 5 1, SubmitEncryptedModelUpdate 12 100 7,
         RequestAggregationDecryption [1] 9 2,
           DecryptSuggestion 1 [1] [42]]"] h3 h4
  have a: "suggestions (run test_env deployed
        [RequestSuggestionDecryption 11 5 1, SubmitEncryptedModelUpdate 12 100 7,
         RequestAggregationDecryption [1] 9 2,
         DecryptSuggestion 1 [1] [42]]) 11 = \<lparr>advice = ''irrigate'', applied = False\<rparr>"
    by auto
  from suggestion_record_stored [OF h0 h2,
      where cleartexts = "[0]" and proofData = "[42]"] h5
  have b: "succeeded (decryptSuggestion test_env
     (run test_env deployed
        (RequestSuggestionDecryption 11 5 1 #
         [SubmitEncryptedModelUpdate 12 100 7, RequestAggregationDecryption [1] 9 2,
       DecryptSuggestion 1 [1] [42]])) 1 [0] [42]) \<and>
   getSuggestion (transact test_env
     (run test_env deployed
        (RequestSuggestionDecryption 11 5 1 #
         [SubmitEncryptedModelUpdate 12 100 7, RequestAggregationDecryption [1] 9 2,
       DecryptSuggestion 1 [1] [42]]))
     (DecryptSuggestion 1 [0] [42])) 11 = ([], False)"
    by blast
  from h0 h1 h2 h3 h5 a b show ?thesis by blast
qed

subsection \<open>C7: the ids of the two registries\<close>

text \<open>
  Claim C7: after any sequence of calls on a fresh contract, the ids assigned by
  \<^verbatim>\<open>submitEncryptedSensorData\<close> are, in order, \<open>1, 2, \<dots>, k\<close>, where \<open>k\<close> is
  the number of sensor submissions in the sequence (capped at the largest
  \<^verbatim>\<open>uint256\<close>, beyond which the checked increment reverts and assigns nothing). So
  they start at 1, increase strictly and never repeat. The same holds for
  \<^verbatim>\<open>submitEncryptedModelUpdate\<close> with the number of model submissions, and neither
  list depends on the calls of the other kind.
\<close>

theorem ids_strictly_increasing:
  "map unat (assignedSensorIds (events (run env deployed cs))) =
     [1 ..< Suc (min (length (filter isSensorSubmission cs)) uint256_max)] \<and>
   map unat (assignedModelIds (events (run env deployed cs))) =
     [1 ..< Suc (min (length (filter isModelSubmission cs)) uint256_max)] \<and>
   sorted_wrt (<) (assignedSensorIds (events (run env deployed cs))) \<and>
   distinct (assignedSensorIds (events (run env deployed cs))) \<and>
   sorted_wrt (<) (assignedModelIds (events (run env deployed cs))) \<and>
   distinct (assignedModelIds (events (run env deployed cs)))"
proof -
  have a: "sensor_inv (run env deployed cs) (length (filter isSensorSubmission cs))"
    using sensor_inv_run [OF deployed_inv(1), of env cs] by simp
  have b: "model_inv (run env deployed cs) (length (filter isModelSubmission cs))"
    using model_inv_run [OF deployed_inv(2), of env cs] by simp
  have s: "map unat (assignedSensorIds (events (run env deployed cs))) =
     [1 ..< Suc (min (length (filter isSensorSubmission cs)) uint256_max)]"
    using a by (simp add: sensor_inv_def)
  have m: "map unat (assignedModelIds (events (run env deployed cs))) =
     [1 ..< Suc (min (length (filter isModelSubmission cs)) uint256_max)]"
    using b by (simp add: model_inv_def)
  from s m strictly_increasing_unat [OF s] strictly_increasing_unat [OF m]
  show ?thesis by simp
qed

subsection \<open>C8: reading a suggestion that was never written\<close>

text \<open>
  Claim C8: after any sequence of calls on a fresh contract,
  \<^verbatim>\<open>getSuggestion\<close> returns the empty advice and \<^verbatim>\<open>false\<close> for every
  beneficiary for whom no \<^verbatim>\<open>decryptSuggestion\<close> call in the sequence succeeded.
  The function is a view: it cannot revert and returns no state.
\<close>

theorem getSuggestion_default:
  assumes "beneficiary \<notin> set (resolved_beneficiaries env deployed cs)"
  shows "getSuggestion (run env deployed cs) beneficiary = ([], False)"
  using run_suggestions_other [OF assms]
  by (simp add: getSuggestion_def deployed_def)

text \<open>
  An instance: a suggestion was resolved for the beneficiary 11 and none for 12, whose
  record reads as the default.
\<close>

theorem getSuggestion_default_witness:
  "resolved_beneficiaries test_env deployed
     [RequestSuggestionDecryption 11 5 1, DecryptSuggestion 1 [1] [42]] = [11] \<and>
   (12 :: address) \<notin> set (resolved_beneficiaries test_env deployed
     [RequestSuggestionDecryption 11 5 1, DecryptSuggestion 1 [1] [42]]) \<and>
   getSuggestion (run test_env deployed
     [RequestSuggestionDecryption 11 5 1, DecryptSuggestion 1 [1] [42]]) 12 = ([], False)"
proof -
  have h: "resolved_beneficiaries test_env deployed
     [RequestSuggestionDecryption 11 5 1, DecryptSuggestion 1 [1] [42]] = [11]"
    by (simp add: eval_defs)
  then have k: "(12 :: address) \<notin> set (resolved_beneficiaries test_env deployed
     [RequestSuggestionDecryption 11 5 1, DecryptSuggestion 1 [1] [42]])"
    by simp
  from getSuggestion_default [OF k] h k show ?thesis by blast
qed

subsection \<open>C9: the wrong callback, and the zero sentinels\<close>

text \<open>
  Claim C9: an aggregation request that went through stores the entity key 0, so
  \<^verbatim>\<open>decryptSuggestion\<close> reverts for its id; a suggestion request that went through
  stores the context 0, so \<^verbatim>\<open>decryptAggregatedModel\<close> reverts for its id. Hence a
  suggestion request for \<^verbatim>\<open>address(0)\<close> and an aggregation request with context
  \<^verbatim>\<open>bytes32(0)\<close> are rejected by their own callback as well, that is, by both. This
  holds right after the request and after any further calls, as long as the oracle
  does not hand out the same request id again.
\<close>

theorem wrong_kind_callback_reverts:
  assumes "reqId \<notin> set (issued cs)"
  shows "(succeeded (requestAggregationDecryption env s (u # us) ctx reqId) \<longrightarrow>
          decryptSuggestion env
            (run env s (RequestAggregationDecryption (u # us) ctx reqId # cs))
            reqId cleartexts proofData = Inl (Require_failed ''invalid'')) \<and>
         (succeeded (requestSuggestionDecryption env s beneficiary enc reqId) \<longrightarrow>
          decryptAggregatedModel env
            (run env s (RequestSuggestionDecryption beneficiary enc reqId # cs))
            reqId cleartexts proofData = Inl (Require_failed ''invalid'')) \<and>
         (succeeded (requestSuggestionDecryption env s 0 enc reqId) \<longrightarrow>
          decryptSuggestion env
            (run env s (RequestSuggestionDecryption 0 enc reqId # cs))
            reqId cleartexts proofData = Inl (Require_failed ''invalid'')) \<and>
         (succeeded (requestAggregationDecryption env s (u # us) 0 reqId) \<longrightarrow>
          decryptAggregatedModel env
            (run env s (RequestAggregationDecryption (u # us) 0 reqId # cs))
            reqId cleartexts proofData = Inl (Require_failed ''invalid''))"
proof -
  have a: "decryptSuggestion env
            (run env s (RequestAggregationDecryption (u # us) c reqId # cs))
            reqId cleartexts proofData = Inl (Require_failed ''invalid'')"
    if "succeeded (requestAggregationDecryption env s (u # us) c reqId)" for c
    using run_after_aggregation_request(1) [OF that assms]
    by (simp add: decryptSuggestion_def Let_def del: run.simps)
  have b: "decryptAggregatedModel env
            (run env s (RequestSuggestionDecryption b enc reqId # cs))
            reqId cleartexts proofData = Inl (Require_failed ''invalid'')"
    if "succeeded (requestSuggestionDecryption env s b enc reqId)" for b
    using run_after_suggestion_request(2) [OF that assms]
    by (simp add: decryptAggregatedModel_def Let_def del: run.simps)
  have c: "decryptSuggestion env
            (run env s (RequestSuggestionDecryption 0 enc reqId # cs))
            reqId cleartexts proofData = Inl (Require_failed ''invalid'')"
    if "succeeded (requestSuggestionDecryption env s 0 enc reqId)"
    using run_after_suggestion_request(1) [OF that assms]
    by (simp add: decryptSuggestion_def Let_def del: run.simps)
  have d: "decryptAggregatedModel env
            (run env s (RequestAggregationDecryption (u # us) 0 reqId # cs))
            reqId cleartexts proofData = Inl (Require_failed ''invalid'')"
    if "succeeded (requestAggregationDecryption env s (u # us) 0 reqId)"
    using run_after_aggregation_request(2) [OF that assms]
    by (simp add: decryptAggregatedModel_def Let_def del: run.simps)
  from a b c d show ?thesis by blast
qed

text \<open>
  An instance: after two model updates, requests under id 1, with another request and
  a resolution of that other request in between, and a proof the oracle accepts.
\<close>

theorem wrong_kind_callback_reverts_witness:
  "(1 :: uint256) \<notin> set (issued
      [RequestSuggestionDecryption 11 5 2, DecryptSuggestion 2 [1] [42]]) \<and>
   succeeded (requestAggregationDecryption test_env
     (run test_env deployed
        [SubmitEncryptedModelUpdate 12 100 7, SubmitEncryptedModelUpdate 13 101 8])
     [1, 2] 9 1) \<and>
   succeeded (requestSuggestionDecryption test_env
     (run test_env deployed
        [SubmitEncryptedModelUpdate 12 100 7, SubmitEncryptedModelUpdate 13 101 8])
     12 6 1) \<and>
   succeeded (requestSuggestionDecryption test_env
     (run test_env deployed
        [SubmitEncryptedModelUpdate 12 100 7, SubmitEncryptedModelUpdate 13 101 8])
     0 6 1) \<and>
   succeeded (requestAggregationDecryption test_env
     (run test_env deployed
        [SubmitEncryptedModelUpdate 12 100 7, SubmitEncryptedModelUpdate 13 101 8])
     [1, 2] 0 1) \<and>
   decryptSuggestion test_env
     (run test_env
        (run test_env deployed
           [SubmitEncryptedModelUpdate 12 100 7, SubmitEncryptedModelUpdate 13 101 8])
        [RequestAggregationDecryption [1, 2] 9 1,
         RequestSuggestionDecryption 11 5 2, DecryptSuggestion 2 [1] [42]])
     1 [1] [42] = Inl (Require_failed ''invalid'') \<and>
   decryptAggregatedModel test_env
     (run test_env
        (run test_env deployed
           [SubmitEncryptedModelUpdate 12 100 7, SubmitEncryptedModelUpdate 13 101 8])
        [RequestSuggestionDecryption 12 6 1,
         RequestSuggestionDecryption 11 5 2, DecryptSuggestion 2 [1] [42]])
     1 [1] [42] = Inl (Require_failed ''invalid'') \<and>
   decryptSuggestion test_env
     (run test_env
        (run test_env deployed
           [SubmitEncryptedModelUpdate 12 100 7, SubmitEncryptedModelUpdate 13 101 8])
        [RequestSuggestionDecryption 0 6 1,
         RequestSuggestionDecryption 11 5 2, DecryptSuggestion 2 [1] [42]])
     1 [1] [42] = Inl (Require_failed ''invalid'') \<and>
   decryptAggregatedModel test_env
     (run test_env
        (run test_env deployed
           [SubmitEncryptedModelUpdate 12 100 7, SubmitEncryptedModelUpdate 13 101 8])
        [RequestAggregationDecryption [1, 2] 0 1,
         RequestSuggestionDecryption 11 5 2, DecryptSuggestion 2 [1] [42]])
     1 [1] [42] = Inl (Require_failed ''invalid'')"
proof -
  have h: "(1 :: uint256) \<notin> set (issued
      [RequestSuggestionDecryption 11 5 2, DecryptSuggestion 2 [1] [42]])"
    by (simp add: issued_def)
  have k1: "succeeded (requestAggregationDecryption test_env
     (run test_env deployed
        [SubmitEncryptedModelUpdate 12 100 7, SubmitEncryptedModelUpdate 13 101 8])
     [1, 2] 9 1)"
    by (simp add: eval_defs)
  have k2: "succeeded (requestSuggestionDecryption test_env
     (run test_env deployed
        [SubmitEncryptedModelUpdate 12 100 7, SubmitEncryptedModelUpdate 13 101 8])
     12 6 1)"
    by (simp add: eval_defs)
  have k3: "succeeded (requestSuggestionDecryption test_env
     (run test_env deployed
        [SubmitEncryptedModelUpdate 12 100 7, SubmitEncryptedModelUpdate 13 101 8])
     0 6 1)"
    by (simp add: eval_defs)
  have k4: "succeeded (requestAggregationDecryption test_env
     (run test_env deployed
        [SubmitEncryptedModelUpdate 12 100 7, SubmitEncryptedModelUpdate 13 101 8])
     [1, 2] 0 1)"
    by (simp add: eval_defs)
  from wrong_kind_callback_reverts [OF h,
      where env = test_env
        and s = "run test_env deployed
           [SubmitEncryptedModelUpdate 12 100 7, SubmitEncryptedModelUpdate 13 101 8]"
        and u = 1 and us = "[2]" and ctx = 9
        and beneficiary = 12 and enc = 6 and cleartexts = "[1]" and proofData = "[42]"]
    h k1 k2 k3 k4
  show ?thesis by blast
qed

subsection \<open>C10: the applied flag\<close>

text \<open>
  Claim C10: after any sequence of calls on a fresh contract, the \<^verbatim>\<open>applied\<close> flag
  of every suggestion record is false, and so is the second component of what
  \<^verbatim>\<open>getSuggestion\<close> returns.
\<close>

theorem applied_never_set:
  "applied (suggestions (run env deployed cs) beneficiary) = False \<and>
   snd (getSuggestion (run env deployed cs) beneficiary) = False"
  using run_applied [OF deployed_applied, where b = beneficiary and env = env and cs = cs]
  by (simp add: getSuggestion_def)

end
